theory Spec2Isabelle
  imports Complex_Main "HOL-Library.Sublist"
begin

section \<open>Python values used by the harness\<close>

text \<open>
  A Python \<open>str\<close> is modelled as a HOL \<open>string\<close>, each \<open>char\<close> read as one code
  point below 256. Exceptions are values of \<open>py_error\<close>; a function that can raise
  returns \<open>py_error + 'a\<close> with \<open>Inl\<close> for the exception.
\<close>

datatype py_error =
  ZeroDivisionError | AttributeError | TypeError | ValueError | KeyError
  | NotImplementedError | ProviderError string

text \<open>\<open>str.isspace\<close> on one code point below 256.\<close>

definition py_isspace :: "char \<Rightarrow> bool" where
  "py_isspace c =
     (let n = (of_char c :: nat)
      in (9 \<le> n \<and> n \<le> 13) \<or> (28 \<le> n \<and> n \<le> 32) \<or> n = 133 \<or> n = 160)"

definition lstrip :: "string \<Rightarrow> string" where
  "lstrip s = dropWhile py_isspace s"

definition rstrip :: "string \<Rightarrow> string" where
  "rstrip s = rev (dropWhile py_isspace (rev s))"

definition strip :: "string \<Rightarrow> string" where
  "strip s = rstrip (lstrip s)"

definition startswith :: "string \<Rightarrow> string \<Rightarrow> bool" where
  "startswith s p = (take (length p) s = p)"

text \<open>\<open>needle in s\<close> for strings: some suffix of \<open>s\<close> starts with the needle.\<close>

fun contains :: "string \<Rightarrow> string \<Rightarrow> bool" where
  "contains [] needle = (needle = [])"
| "contains (c # cs) needle = (startswith (c # cs) needle \<or> contains cs needle)"

text \<open>\<open>s.split(sep)\<close> for a one-character separator: never an empty list.\<close>

fun split_on :: "char \<Rightarrow> string \<Rightarrow> string list" where
  "split_on sep [] = [[]]"
| "split_on sep (c # cs) =
     (if c = sep then [] # split_on sep cs
      else (case split_on sep cs of
              [] \<Rightarrow> [[c]]
            | l # ls \<Rightarrow> (c # l) # ls))"

text \<open>\<open>str.lower\<close> on one code point below 256 (A-Z and the Latin-1 capitals).\<close>

definition lower_char :: "char \<Rightarrow> char" where
  "lower_char c =
     (let n = (of_char c :: nat)
      in if (65 \<le> n \<and> n \<le> 90) \<or> (192 \<le> n \<and> n \<le> 222 \<and> n \<noteq> 215)
         then char_of (n + 32) else c)"

definition lower :: "string \<Rightarrow> string" where
  "lower s = map lower_char s"

definition is_digit :: "char \<Rightarrow> bool" where
  "is_digit c = (let n = (of_char c :: nat) in 48 \<le> n \<and> n \<le> 57)"

definition is_upper_AZ :: "char \<Rightarrow> bool" where
  "is_upper_AZ c = (let n = (of_char c :: nat) in 65 \<le> n \<and> n \<le> 90)"

text \<open>\<open>int(digits)\<close> on a run of decimal digits, most significant first.\<close>

definition int_of_digits :: "string \<Rightarrow> int" where
  "int_of_digits ds = foldl (\<lambda>acc c. 10 * acc + (int (of_char c) - 48)) 0 ds"

text \<open>
  \<open>int(s)\<close> on a run of decimal digits. CPython refuses a string of more than 4300
  digits (the default of \<open>sys.int_max_str_digits\<close>) with \<open>ValueError\<close>.
\<close>

definition py_int :: "string \<Rightarrow> py_error + int" where
  "py_int ds = (if length ds > 4300 then Inl ValueError else Inr (int_of_digits ds))"

section \<open>example_selector.py\<close>

datatype task_type =
  PURE_FUNCTION | EFFECTFUL_FUNCTION | CRUD_OPERATION | ERROR_HANDLING
  | PATTERN_MATCHING | TYPE_DEFINITION | DATABASE_BINDING | QUERY_COVENANT
  | QUERY_SQL | TRANSACTION | MIGRATION | REFACTORING | GENERAL

record example =
  path :: string
  title :: string
  categories :: "task_type list"
  approx_tokens :: int
  priority :: int

definition EXAMPLES :: "example list" where
  "EXAMPLES =
   [\<lparr>path = ''examples/01-hello-world.cov'',
     title = ''Hello World (Minimal Effectful Function)'',
     categories = [EFFECTFUL_FUNCTION], approx_tokens = 80, priority = 3\<rparr>,
    \<lparr>path = ''examples/02-pure-functions.cov'',
     title = ''Pure Functions (No Effects)'',
     categories = [PURE_FUNCTION], approx_tokens = 350, priority = 9\<rparr>,
    \<lparr>path = ''examples/04-error-handling.cov'',
     title = ''Error Handling (Union Returns, Handle Blocks)'',
     categories = [ERROR_HANDLING, TYPE_DEFINITION], approx_tokens = 800, priority = 9\<rparr>,
    \<lparr>path = ''examples/10-pattern-matching.cov'',
     title = ''Pattern Matching (Match, Destructuring)'',
     categories = [PATTERN_MATCHING, TYPE_DEFINITION], approx_tokens = 550, priority = 8\<rparr>,
    \<lparr>path = ''examples/16-database-dialects.cov'',
     title = ''Database Dialects (SQL Body Blocks)'',
     categories = [QUERY_SQL, DATABASE_BINDING, CRUD_OPERATION, TRANSACTION],
     approx_tokens = 1200, priority = 8\<rparr>,
    \<lparr>path = ''examples/14-project-queries.cov'',
     title = ''Project Queries (Covenant Dialect)'',
     categories = [QUERY_COVENANT], approx_tokens = 650, priority = 7\<rparr>,
    \<lparr>path = ''examples/06-database-access.cov'',
     title = ''Database Access (Simple CRUD)'',
     categories = [CRUD_OPERATION, EFFECTFUL_FUNCTION], approx_tokens = 450, priority = 6\<rparr>,
    \<lparr>path = ''examples/07-multiple-effects.cov'',
     title = ''Multiple Effects (Database + Network)'',
     categories = [EFFECTFUL_FUNCTION], approx_tokens = 420, priority = 6\<rparr>,
    \<lparr>path = ''examples/11-extern-bindings.cov'',
     title = ''External Bindings (Tool Integration)'',
     categories = [EFFECTFUL_FUNCTION], approx_tokens = 700, priority = 5\<rparr>,
    \<lparr>path = ''examples/13-database-module.cov'',
     title = ''Database Module (Schema Definition)'',
     categories = [DATABASE_BINDING], approx_tokens = 700, priority = 7\<rparr>,
    \<lparr>path = ''examples/15-ast-mutations.cov'',
     title = ''AST Mutations (Refactoring)'',
     categories = [REFACTORING], approx_tokens = 800, priority = 5\<rparr>]"

text \<open>\<open>relations.get(task_type, [])\<close>: an absent key has no related categories.\<close>

fun get_related_categories :: "task_type \<Rightarrow> task_type list" where
  "get_related_categories PURE_FUNCTION = [PATTERN_MATCHING]"
| "get_related_categories EFFECTFUL_FUNCTION = [ERROR_HANDLING]"
| "get_related_categories CRUD_OPERATION = [QUERY_SQL, QUERY_COVENANT, DATABASE_BINDING]"
| "get_related_categories ERROR_HANDLING = [PATTERN_MATCHING, TYPE_DEFINITION]"
| "get_related_categories PATTERN_MATCHING = [TYPE_DEFINITION, ERROR_HANDLING]"
| "get_related_categories QUERY_SQL = [CRUD_OPERATION, DATABASE_BINDING]"
| "get_related_categories QUERY_COVENANT = [CRUD_OPERATION]"
| "get_related_categories TRANSACTION = [CRUD_OPERATION, QUERY_SQL]"
| "get_related_categories _ = []"

text \<open>
  The score is a Python float built from small whole numbers only, so it is exact and
  modelled as an \<open>int\<close>.
\<close>

definition score_example :: "example \<Rightarrow> task_type \<Rightarrow> int" where
  "score_example ex task =
     (if List.member (categories ex) task then 50 else 0)
     + 10 * int (length (filter (List.member (get_related_categories task)) (categories ex)))
     + priority ex * 2
     + (if approx_tokens ex < 500 then 5 else 0)"

text \<open>The candidates \<open>(score, ex)\<close> with a positive score, in catalog order.\<close>

definition scored :: "example list \<Rightarrow> task_type \<Rightarrow> (int \<times> example) list" where
  "scored examples task =
     filter (\<lambda>(score, ex). score > 0) (map (\<lambda>ex. (score_example ex task, ex)) examples)"

text \<open>
  \<open>scored.sort(key=lambda x: x[0], reverse=True)\<close>: Python's sort is stable also when
  reversed, which is the stable ascending sort on the negated key.
\<close>

definition sort_scored :: "(int \<times> example) list \<Rightarrow> (int \<times> example) list" where
  "sort_scored xs = sort_key (\<lambda>(score, ex). - score) xs"

text \<open>The selection loop, with its two accumulators \<open>selected\<close> and \<open>total_tokens\<close>.\<close>

fun select_loop ::
  "int \<Rightarrow> int \<Rightarrow> (int \<times> example) list \<Rightarrow> example list \<Rightarrow> int \<Rightarrow> example list" where
  "select_loop max_tokens max_examples [] selected total_tokens = selected"
| "select_loop max_tokens max_examples ((score, ex) # rest) selected total_tokens =
     (if int (length selected) \<ge> max_examples then selected
      else if total_tokens + approx_tokens ex \<le> max_tokens
        then select_loop max_tokens max_examples rest (selected @ [ex])
               (total_tokens + approx_tokens ex)
        else select_loop max_tokens max_examples rest selected total_tokens)"

text \<open>\<open>ExampleSelector.select\<close>; \<open>examples\<close> is the selector's catalog \<open>self.examples\<close>.\<close>

definition select :: "example list \<Rightarrow> task_type \<Rightarrow> int \<Rightarrow> int \<Rightarrow> example list" where
  "select examples task max_tokens max_examples =
     select_loop max_tokens max_examples (sort_scored (scored examples task)) [] 0"

section \<open>compiler_validator.py\<close>

text \<open>
  The values \<open>json.loads\<close> returns. A dataclass does not check its fields' types, so a
  \<open>CompilerError\<close> built from decoded JSON holds these values as they come; \<open>JNull\<close>
  is Python's \<open>None\<close>. A \<open>JObj\<close> is a dict, read with \<open>map_of\<close>.
\<close>

datatype json =
  JNull | JBool bool | JInt int | JFloat rat | JStr string
  | JArr "json list" | JObj "(string \<times> json) list"

datatype error_severity = ERROR | WARNING | INFO

record compiler_error =
  code :: json
  severity :: error_severity
  message :: json
  location :: json
  line :: json
  column :: json
  suggestion :: json
  auto_fix_confidence :: json

record validation_result =
  success :: bool
  errors :: "compiler_error list"
  warnings :: "compiler_error list"
  source_code :: string
  compilation_time_ms :: "rat option"
  phase_reached :: "string option"

definition get_error_codes :: "validation_result \<Rightarrow> json list" where
  "get_error_codes r = map code (errors r)"

record completed_process =
  returncode :: int
  stdout :: string
  stderr :: string

text \<open>What \<open>subprocess.run\<close> does: it completes, times out, or finds no binary.\<close>

datatype proc_outcome = Completed completed_process | TimeoutExpired | FileNotFoundError

text \<open>
  What the validator and the harness call outside the repository, over a state \<open>'x\<close> of
  the outside world: the compiler run on a temporary file holding the source text,
  \<open>json.loads\<close> (\<open>None\<close> is \<open>JSONDecodeError\<close>), \<open>time.time\<close>,
  \<open>datetime.now().isoformat\<close> and the provider's \<open>messages.create\<close> (reply text,
  input tokens, output tokens). Times are exact rationals; float rounding is not
  modelled.
\<close>

record 'x env =
  subprocess_run :: "string \<Rightarrow> 'x \<Rightarrow> proc_outcome \<times> 'x"
  json_loads :: "string \<Rightarrow> json option"
  time_time :: "'x \<Rightarrow> rat"
  now_isoformat :: "'x \<Rightarrow> string"
  messages_create :: "string \<Rightarrow> 'x \<Rightarrow> (py_error + string \<times> int \<times> int) \<times> 'x"

definition run_compiler :: "'x env \<Rightarrow> string \<Rightarrow> 'x \<Rightarrow> completed_process \<times> 'x" where
  "run_compiler env source x =
     (case subprocess_run env source x of
        (Completed result, x') \<Rightarrow> (result, x')
      | (TimeoutExpired, x') \<Rightarrow>
          (\<lparr>returncode = 1, stdout = [], stderr = ''ERROR: Compilation timeout (30s)''\<rparr>, x')
      | (FileNotFoundError, x') \<Rightarrow>
          (\<lparr>returncode = 1, stdout = [],
            stderr = ''ERROR: Compiler not found. Run 'cargo build' first.''\<rparr>, x'))"

text \<open>
  \<open>re.search\<close>: the match at the leftmost position where the pattern matches; \<open>m\<close>
  matches the pattern at the start of a string.
\<close>

fun re_search :: "(string \<Rightarrow> 'a option) \<Rightarrow> string \<Rightarrow> 'a option" where
  "re_search m [] = m []"
| "re_search m (c # cs) = (case m (c # cs) of Some r \<Rightarrow> Some r | None \<Rightarrow> re_search m cs)"

text \<open>
  The pattern \<^verbatim>\<open>\[([EW]-[A-Z]+-\d+)\]\<close> at the start of \<open>s\<close>: group 1 and the text
  after the match. The character after a run of capitals must be \<open>-\<close> and the one after
  a run of digits must be \<open>]\<close>, so only the longest runs can match.
\<close>

definition match_code :: "string \<Rightarrow> (string \<times> string) option" where
  "match_code s =
     (case s of
        b # k # d # r \<Rightarrow>
          if b = CHR ''['' \<and> (k = CHR ''E'' \<or> k = CHR ''W'') \<and> d = CHR ''-'' then
            (let letters = takeWhile is_upper_AZ r
             in case dropWhile is_upper_AZ r of
                  d2 # r2 \<Rightarrow>
                    if letters \<noteq> [] \<and> d2 = CHR ''-'' then
                      (let digits = takeWhile is_digit r2
                       in case dropWhile is_digit r2 of
                            e # r3 \<Rightarrow>
                              if digits \<noteq> [] \<and> e = CHR '']''
                              then Some (k # d # letters @ d2 # digits, r3)
                              else None
                          | [] \<Rightarrow> None)
                    else None
                | [] \<Rightarrow> None)
          else None
      | _ \<Rightarrow> None)"

text \<open>The pattern \<^verbatim>\<open>line (\d+)\<close> at the start of \<open>s\<close>: group 1.\<close>

definition match_line :: "string \<Rightarrow> string option" where
  "match_line s =
     (if startswith s ''line '' \<and> takeWhile is_digit (drop 5 s) \<noteq> []
      then Some (takeWhile is_digit (drop 5 s)) else None)"

text \<open>
  \<open>_parse_error_line\<close>. The only step that can raise is \<open>int(line_match.group(1))\<close>;
  otherwise it returns a \<open>CompilerError\<close>, which is truthy, so the caller's
  \<open>if error:\<close> holds.
\<close>

definition parse_error_line :: "string \<Rightarrow> error_severity \<Rightarrow> py_error + compiler_error" where
  "parse_error_line txt sev =
     (let code_match = re_search match_code txt;
          line_match = re_search match_line txt
      in case (case line_match of
                 Some ds \<Rightarrow> (case py_int ds of Inl e \<Rightarrow> Inl e | Inr n \<Rightarrow> Inr (JInt n))
               | None \<Rightarrow> Inr JNull) of
           Inl e \<Rightarrow> Inl e
         | Inr line_num \<Rightarrow>
             Inr \<lparr>code = JStr (case code_match of Some (g, rest) \<Rightarrow> g | None \<Rightarrow> ''E-UNKNOWN''),
                  severity = sev,
                  message = JStr (case code_match of
                                    Some (g, rest) \<Rightarrow>
                                      (let msg = strip rest
                                       in if startswith msg '':'' then strip (drop 1 msg)
                                          else msg)
                                  | None \<Rightarrow> txt),
                  location = JNull,
                  line = line_num,
                  column = JNull, suggestion = JNull, auto_fix_confidence = JNull\<rparr>)"

text \<open>\<open>d.get(key, default)\<close> on a dict.\<close>

definition dict_get :: "(string \<times> json) list \<Rightarrow> string \<Rightarrow> json \<Rightarrow> json" where
  "dict_get kvs key dflt = (case map_of kvs key of Some v \<Rightarrow> v | None \<Rightarrow> dflt)"

text \<open>\<open>ErrorSeverity(value)\<close>: the member with that value, else \<open>ValueError\<close>.\<close>

definition ErrorSeverity :: "json \<Rightarrow> py_error + error_severity" where
  "ErrorSeverity v =
     (if v = JStr ''error'' then Inr ERROR
      else if v = JStr ''warning'' then Inr WARNING
      else if v = JStr ''info'' then Inr INFO
      else Inl ValueError)"

text \<open>The \<open>CompilerError\<close> built from one decoded dict and its severity.\<close>

definition CompilerError_of_item :: "(string \<times> json) list \<Rightarrow> error_severity \<Rightarrow> compiler_error" where
  "CompilerError_of_item item sev =
     \<lparr>code = dict_get item ''code'' (JStr ''E-UNKNOWN''),
      severity = sev,
      message = dict_get item ''message'' (JStr []),
      location = dict_get item ''location'' JNull,
      line = dict_get item ''line'' JNull,
      column = dict_get item ''column'' JNull,
      suggestion = dict_get item ''suggestion'' JNull,
      auto_fix_confidence = dict_get item ''auto_fix_confidence'' JNull\<rparr>"

text \<open>
  The loop of \<open>_parse_json_output\<close> over the items, with its accumulators. An item that
  is not a dict has no \<open>get\<close>.
\<close>

fun parse_json_items ::
  "json list \<Rightarrow> compiler_error list \<Rightarrow> compiler_error list
   \<Rightarrow> py_error + (compiler_error list \<times> compiler_error list)" where
  "parse_json_items [] errs warns = Inr (errs, warns)"
| "parse_json_items (JObj item # rest) errs warns =
     (case ErrorSeverity (dict_get item ''severity'' (JStr ''error'')) of
        Inl e \<Rightarrow> Inl e
      | Inr sev \<Rightarrow>
          (let error = CompilerError_of_item item sev
           in if sev = ERROR then parse_json_items rest (errs @ [error]) warns
              else parse_json_items rest errs (warns @ [error])))"
| "parse_json_items (item # rest) errs warns = Inl AttributeError"

text \<open>
  What \<open>for item in data\<close> runs over in \<open>_parse_json_output\<close>: a dict is wrapped in a
  list first; iterating a string gives its characters; a number, a boolean or \<open>None\<close>
  cannot be iterated.
\<close>

definition iter_items :: "json \<Rightarrow> py_error + json list" where
  "iter_items data =
     (case data of
        JObj kvs \<Rightarrow> Inr [data]
      | JArr items \<Rightarrow> Inr items
      | JStr s \<Rightarrow> Inr (map (\<lambda>c. JStr [c]) s)
      | _ \<Rightarrow> Inl TypeError)"

definition parse_json_output ::
  "json \<Rightarrow> py_error + (compiler_error list \<times> compiler_error list)" where
  "parse_json_output data =
     (case iter_items data of
        Inl e \<Rightarrow> Inl e
      | Inr items \<Rightarrow> parse_json_items items [] [])"

text \<open>The loop of \<open>_parse_compiler_output\<close> over the lines of the output.\<close>

fun parse_text_lines ::
  "string list \<Rightarrow> compiler_error list \<Rightarrow> compiler_error list
   \<Rightarrow> py_error + (compiler_error list \<times> compiler_error list)" where
  "parse_text_lines [] errs warns = Inr (errs, warns)"
| "parse_text_lines (raw # rest) errs warns =
     (let txt = strip raw
      in if txt = [] then parse_text_lines rest errs warns
         else if startswith txt ''ERROR'' \<or> startswith txt ''error''
           then (case parse_error_line txt ERROR of
                   Inl e \<Rightarrow> Inl e
                 | Inr error \<Rightarrow> parse_text_lines rest (errs @ [error]) warns)
         else if startswith txt ''WARNING'' \<or> startswith txt ''warning''
           then (case parse_error_line txt WARNING of
                   Inl e \<Rightarrow> Inl e
                 | Inr warning \<Rightarrow> parse_text_lines rest errs (warns @ [warning]))
         else parse_text_lines rest errs warns)"

text \<open>
  \<open>_parse_compiler_output\<close>. The call of \<open>_parse_json_output\<close> returns from inside the
  \<open>try\<close>, whose handler catches \<open>JSONDecodeError\<close> only.
\<close>

definition parse_compiler_output ::
  "(string \<Rightarrow> json option) \<Rightarrow> completed_process
   \<Rightarrow> py_error + (compiler_error list \<times> compiler_error list)" where
  "parse_compiler_output loads result =
     (let output = stderr result @ [CHR 0x0A] @ stdout result
      in case (if startswith (strip output) ''{'' \<or> startswith (strip output) ''[''
               then loads output else None) of
           Some data \<Rightarrow> parse_json_output data
         | None \<Rightarrow>
             (case parse_text_lines (split_on (CHR 0x0A) output) [] [] of
                Inl e \<Rightarrow> Inl e
              | Inr (errs, warns) \<Rightarrow>
                  if errs = [] \<and> returncode result \<noteq> 0
                  then Inr (errs @ [\<lparr>code = JStr ''E-UNKNOWN'', severity = ERROR,
                                      message = JStr (if output = [] then ''Compilation failed''
                                                      else output),
                                      location = JNull, line = JNull, column = JNull,
                                      suggestion = JNull, auto_fix_confidence = JNull\<rparr>],
                            warns)
                  else Inr (errs, warns)))"

text \<open>
  \<open>any(code.startswith(p) for code in error_codes)\<close>: it stops at the first code that
  starts with \<open>p\<close>; a code that is not a string has no \<open>startswith\<close>.
\<close>

fun any_startswith :: "string \<Rightarrow> json list \<Rightarrow> py_error + bool" where
  "any_startswith p [] = Inr False"
| "any_startswith p (JStr s # cs) = (if startswith s p then Inr True else any_startswith p cs)"
| "any_startswith p (c # cs) = Inl AttributeError"

definition determine_phase ::
  "completed_process \<Rightarrow> compiler_error list \<Rightarrow> py_error + string" where
  "determine_phase result errs =
     (if errs = [] then Inr ''success''
      else
        (let error_codes = map code errs
         in case any_startswith ''E-PARSE'' error_codes of
              Inl e \<Rightarrow> Inl e
            | Inr True \<Rightarrow> Inr ''parser''
            | Inr False \<Rightarrow>
         (case any_startswith ''E-TYPE'' error_codes of
              Inl e \<Rightarrow> Inl e
            | Inr True \<Rightarrow> Inr ''type_check''
            | Inr False \<Rightarrow>
         (case any_startswith ''E-EFFECT'' error_codes of
              Inl e \<Rightarrow> Inl e
            | Inr True \<Rightarrow> Inr ''effect_check''
            | Inr False \<Rightarrow>
         (case any_startswith ''E-CODEGEN'' error_codes of
              Inl e \<Rightarrow> Inl e
            | Inr True \<Rightarrow> Inr ''codegen''
            | Inr False \<Rightarrow>
         (let output = stderr result @ stdout result
          in if contains (lower output) ''parsing'' then Inr ''parser''
             else if contains (lower output) ''type checking'' then Inr ''type_check''
             else Inr ''unknown''))))))"

text \<open>
  \<open>CompilerValidator.validate\<close>. The temporary file is written, handed to the compiler
  and removed; the model passes the source text to \<open>subprocess_run\<close>.
\<close>

definition validate ::
  "'x env \<Rightarrow> string \<Rightarrow> 'x \<Rightarrow> (py_error + validation_result) \<times> 'x" where
  "validate env source x =
     (let start_time = time_time env x
      in case run_compiler env source x of
           (result, x') \<Rightarrow>
             (case parse_compiler_output (json_loads env) result of
                Inl e \<Rightarrow> (Inl e, x')
              | Inr (errs, warns) \<Rightarrow>
                  (case determine_phase result errs of
                     Inl e \<Rightarrow> (Inl e, x')
                   | Inr phase \<Rightarrow>
                       (Inr \<lparr>success = (length errs = 0),
                             errors = errs,
                             warnings = warns,
                             source_code = source,
                             compilation_time_ms = Some ((time_time env x' - start_time) * 1000),
                             phase_reached = Some phase\<rparr>, x'))))"

section \<open>generation_harness.py\<close>

record generation_task =
  id' :: string
  task_type :: task_type
  description :: string
  module :: string
  function_name :: string
  parameters :: "(string \<times> string) list list"
  return_type :: string
  requirements :: "(string \<times> string) list list"
  expected_effects :: "string list"
  context' :: "string option"

record generation_attempt =
  attempt_number :: int
  prompt_tokens :: int
  completion_tokens :: int
  generated_code :: string
  duration_ms :: rat
  validation_result :: "validation_result option"

record generation_metrics =
  task_id :: string
  task_type' :: string
  timestamp :: string
  attempts :: "generation_attempt list"
  total_attempts :: int
  first_pass_success :: bool
  final_success :: bool
  total_prompt_tokens :: int
  total_completion_tokens :: int
  total_duration_ms :: rat
  total_cost_usd :: rat
  error_codes :: "json list"

datatype model_provider = ANTHROPIC | OPENAI | MOCK

fun task_type_value :: "task_type \<Rightarrow> string" where
  "task_type_value PURE_FUNCTION = ''pure_function''"
| "task_type_value EFFECTFUL_FUNCTION = ''effectful_function''"
| "task_type_value CRUD_OPERATION = ''crud_operation''"
| "task_type_value ERROR_HANDLING = ''error_handling''"
| "task_type_value PATTERN_MATCHING = ''pattern_matching''"
| "task_type_value TYPE_DEFINITION = ''type_definition''"
| "task_type_value DATABASE_BINDING = ''database_binding''"
| "task_type_value QUERY_COVENANT = ''query_covenant''"
| "task_type_value QUERY_SQL = ''query_sql''"
| "task_type_value TRANSACTION = ''transaction''"
| "task_type_value MIGRATION = ''migration''"
| "task_type_value REFACTORING = ''refactoring''"
| "task_type_value GENERAL = ''general''"

text \<open>
  A \<open>GenerationHarness\<close>: its provider, its bound on correction rounds, and the outside
  world it calls. The text of the examples document and of the two prompts is not
  modelled: \<open>load_examples\<close> and the two prompt builders are parameters, and a prompt
  builder may raise (a task's parameter dict may lack a key).
\<close>

record 'x generation_harness =
  model_provider :: model_provider
  max_correction_rounds :: int
  environment :: "'x env"
  load_examples :: "example list \<Rightarrow> 'x \<Rightarrow> string"
  build_initial_prompt :: "generation_task \<Rightarrow> string \<Rightarrow> py_error + string"
  build_correction_prompt ::
    "generation_task \<Rightarrow> string \<Rightarrow> compiler_error list \<Rightarrow> py_error + string"

text \<open>
  The state the harness runs in: the outside world, and a count of the calls of
  \<open>_call_llm\<close> made so far. The count is not in the source; it records the model
  invocations so that they can be stated.
\<close>

record 'x world =
  llm_calls :: nat
  outside :: 'x

text \<open>
  \<open>_extract_code_from_markdown\<close>. The pattern is \<^verbatim>\<open>```(?:covenant)?\n(.*?)```\<close> with
  \<open>DOTALL\<close>: a fence, then \<open>covenant\<close> or nothing, a newline, and the shortest text
  that a fence follows. \<open>until_fence\<close> is that text, \<open>match_block\<close> the pattern at the
  start of a string, and \<open>matches[0]\<close> of \<open>re.findall\<close> the leftmost match.
\<close>

fun until_fence :: "string \<Rightarrow> string option" where
  "until_fence [] = None"
| "until_fence (c # cs) =
     (if startswith (c # cs) ''```'' then Some []
      else (case until_fence cs of None \<Rightarrow> None | Some body \<Rightarrow> Some (c # body)))"

definition match_block :: "string \<Rightarrow> string option" where
  "match_block s =
     (if startswith s ''```'' then
        (if startswith (drop 3 s) (''covenant'' @ [CHR 0x0A]) then until_fence (drop 12 s)
         else if startswith (drop 3 s) [CHR 0x0A] then until_fence (drop 4 s)
         else None)
      else None)"

definition extract_code_from_markdown :: "string \<Rightarrow> string" where
  "extract_code_from_markdown text =
     (case re_search match_block text of
        Some block \<Rightarrow> strip block
      | None \<Rightarrow> strip text)"

definition mock_code :: string where
  "mock_code =
     ''snippet id=\"test.mock\" kind=\"fn\"\<newline>signature\<newline>  fn name=\"mock\"\<newline>    returns type=\"Unit\"\<newline>  end\<newline>end\<newline>body\<newline>  step id=\"s1\" kind=\"return\"\<newline>    lit=none\<newline>    as=\"_\"\<newline>  end\<newline>end\<newline>end''"

text \<open>
  \<open>_call_llm\<close>: generated code, prompt tokens, completion tokens. The reply is passed
  through \<open>_extract_code_from_markdown\<close> only when it contains a fence.
\<close>

definition call_llm ::
  "'x generation_harness \<Rightarrow> string \<Rightarrow> 'x world
   \<Rightarrow> (py_error + string \<times> int \<times> int) \<times> 'x world" where
  "call_llm h prompt w =
     (let w1 = w\<lparr>llm_calls := Suc (llm_calls w)\<rparr>
      in case model_provider h of
           MOCK \<Rightarrow> (Inr (mock_code, 100, 50), w1)
         | ANTHROPIC \<Rightarrow>
             (case messages_create (environment h) prompt (outside w1) of
                (Inl e, x') \<Rightarrow> (Inl e, w1\<lparr>outside := x'\<rparr>)
              | (Inr (text, input_tokens, output_tokens), x') \<Rightarrow>
                  (Inr (if contains text ''```'' then extract_code_from_markdown text else text,
                        input_tokens, output_tokens),
                   w1\<lparr>outside := x'\<rparr>))
         | OPENAI \<Rightarrow> (Inl NotImplementedError, w1))"

text \<open>
  The body that \<open>_generate_attempt\<close> and \<open>_generate_correction\<close> share once the prompt is
  built: call the model, time the call, validate the code.
\<close>

definition call_and_validate ::
  "'x generation_harness \<Rightarrow> string \<Rightarrow> int \<Rightarrow> 'x world
   \<Rightarrow> (py_error + generation_attempt) \<times> 'x world" where
  "call_and_validate h prompt number w =
     (let start = time_time (environment h) (outside w)
      in case call_llm h prompt w of
           (Inl e, w1) \<Rightarrow> (Inl e, w1)
         | (Inr (code_text, p_tokens, c_tokens), w1) \<Rightarrow>
             (let duration = (time_time (environment h) (outside w1) - start) * 1000
              in case validate (environment h) code_text (outside w1) of
                   (Inl e, x2) \<Rightarrow> (Inl e, w1\<lparr>outside := x2\<rparr>)
                 | (Inr validation, x2) \<Rightarrow>
                     (Inr \<lparr>attempt_number = number,
                           prompt_tokens = p_tokens,
                           completion_tokens = c_tokens,
                           generated_code = code_text,
                           duration_ms = duration,
                           validation_result = Some validation\<rparr>,
                      w1\<lparr>outside := x2\<rparr>)))"

definition generate_attempt ::
  "'x generation_harness \<Rightarrow> generation_task \<Rightarrow> string \<Rightarrow> int \<Rightarrow> 'x world
   \<Rightarrow> (py_error + generation_attempt) \<times> 'x world" where
  "generate_attempt h task examples number w =
     (case build_initial_prompt h task examples of
        Inl e \<Rightarrow> (Inl e, w)
      | Inr prompt \<Rightarrow> call_and_validate h prompt number w)"

definition generate_correction ::
  "'x generation_harness \<Rightarrow> generation_task \<Rightarrow> string \<Rightarrow> int \<Rightarrow> string
   \<Rightarrow> compiler_error list \<Rightarrow> 'x world \<Rightarrow> (py_error + generation_attempt) \<times> 'x world" where
  "generate_correction h task examples number previous_code errs w =
     (case build_correction_prompt h task previous_code errs of
        Inl e \<Rightarrow> (Inl e, w)
      | Inr prompt \<Rightarrow> call_and_validate h prompt number w)"

text \<open>\<open>validation is not None and validation.success\<close>.\<close>

definition succeeded :: "validation_result option \<Rightarrow> bool" where
  "succeeded v = (case v of None \<Rightarrow> False | Some r \<Rightarrow> success r)"

text \<open>
  The correction loop of \<open>generate\<close> over the round numbers, on the loop's variables
  \<open>(attempts, current_code, current_validation, final_success)\<close>.
\<close>

fun correction_loop ::
  "'x generation_harness \<Rightarrow> generation_task \<Rightarrow> string \<Rightarrow> int list
   \<Rightarrow> generation_attempt list \<times> string \<times> validation_result option \<times> bool \<Rightarrow> 'x world
   \<Rightarrow> (py_error + generation_attempt list \<times> string \<times> validation_result option \<times> bool)
      \<times> 'x world" where
  "correction_loop h task examples [] st w = (Inr st, w)"
| "correction_loop h task examples (round_num # rounds)
     (atts, current_code, current_validation, final) w =
     (if final then (Inr (atts, current_code, current_validation, final), w)
      else
        (case current_validation of
           None \<Rightarrow> (Inr (atts, current_code, current_validation, final), w)
         | Some v \<Rightarrow>
             if success v then (Inr (atts, current_code, current_validation, final), w)
             else
               (case generate_correction h task examples round_num current_code (errors v) w of
                  (Inl e, w') \<Rightarrow> (Inl e, w')
                | (Inr attempt_n, w') \<Rightarrow>
                    correction_loop h task examples rounds
                      (atts @ [attempt_n], generated_code attempt_n,
                       validation_result attempt_n,
                       succeeded (validation_result attempt_n)) w')))"

text \<open>
  \<open>GenerationHarness.generate\<close>. \<open>range(2, max_correction_rounds + 2)\<close> is the list
  \<open>[2..max_correction_rounds + 1]\<close>.
\<close>

definition generate ::
  "'x generation_harness \<Rightarrow> generation_task \<Rightarrow> 'x world
   \<Rightarrow> (py_error + generation_metrics) \<times> 'x world" where
  "generate h task w =
     (let start_time = time_time (environment h) (outside w);
          selected_examples = select EXAMPLES (task_type task) 1500 3;
          examples_text = load_examples h selected_examples (outside w)
      in case generate_attempt h task examples_text 1 w of
           (Inl e, w1) \<Rightarrow> (Inl e, w1)
         | (Inr attempt1, w1) \<Rightarrow>
             (let first_pass = succeeded (validation_result attempt1)
              in case correction_loop h task examples_text [2..max_correction_rounds h + 1]
                        ([attempt1], generated_code attempt1, validation_result attempt1,
                         first_pass) w1 of
                   (Inl e, w2) \<Rightarrow> (Inl e, w2)
                 | (Inr (atts, current_code, current_validation, final), w2) \<Rightarrow>
                     (let total_duration =
                            (time_time (environment h) (outside w2) - start_time) * 1000;
                          total_prompt = sum_list (map prompt_tokens atts);
                          total_completion = sum_list (map completion_tokens atts);
                          input_cost = (of_int total_prompt / 1000000) * 3;
                          output_cost = (of_int total_completion / 1000000) * 15
                      in (Inr \<lparr>task_id = id' task,
                               task_type' = task_type_value (task_type task),
                               timestamp = now_isoformat (environment h) (outside w2),
                               attempts = atts,
                               total_attempts = int (length atts),
                               first_pass_success = first_pass,
                               final_success = final,
                               total_prompt_tokens = total_prompt,
                               total_completion_tokens = total_completion,
                               total_duration_ms = total_duration,
                               total_cost_usd = input_cost + output_cost,
                               error_codes =
                                 (case current_validation of
                                    None \<Rightarrow> []
                                  | Some v \<Rightarrow>
                                      if \<not> success v then get_error_codes v else [])\<rparr>,
                          w2))))"

text \<open>
  \<open>Counter(all_errors)\<close>. A list or a dict cannot be hashed: \<open>TypeError\<close>. Python's
  equality on the keys identifies the numbers \<open>True\<close>, \<open>1\<close> and \<open>1.0\<close> (and
  \<open>False\<close>, \<open>0\<close>, \<open>0.0\<close>); a key that is met again keeps the object first stored.
  The counter keeps its keys in the order first met. (A decoded float is a rational
  here; \<open>NaN\<close> and the infinities are outside the model.)
\<close>

fun hashable :: "json \<Rightarrow> bool" where
  "hashable (JArr items) = False"
| "hashable (JObj kvs) = False"
| "hashable v = True"

fun number_of :: "json \<Rightarrow> rat option" where
  "number_of (JBool b) = Some (if b then 1 else 0)"
| "number_of (JInt n) = Some (of_int n)"
| "number_of (JFloat q) = Some q"
| "number_of v = None"

definition py_eq :: "json \<Rightarrow> json \<Rightarrow> bool" where
  "py_eq a b =
     (case (number_of a, number_of b) of
        (Some x, Some y) \<Rightarrow> x = y
      | (None, None) \<Rightarrow> a = b
      | _ \<Rightarrow> False)"

fun counter_add :: "json \<Rightarrow> (json \<times> nat) list \<Rightarrow> (json \<times> nat) list" where
  "counter_add c [] = [(c, 1)]"
| "counter_add c ((k, n) # rest) =
     (if py_eq k c then (k, Suc n) # rest else (k, n) # counter_add c rest)"

fun Counter :: "json list \<Rightarrow> (json \<times> nat) list \<Rightarrow> py_error + (json \<times> nat) list" where
  "Counter [] counts = Inr counts"
| "Counter (c # cs) counts =
     (if hashable c then Counter cs (counter_add c counts) else Inl TypeError)"

text \<open>
  \<open>most_common(n)\<close>: the \<open>n\<close> entries with the highest counts, highest first, entries
  of equal count in the order first met.
\<close>

definition most_common :: "nat \<Rightarrow> (json \<times> nat) list \<Rightarrow> (json \<times> nat) list" where
  "most_common n counts = take n (sort_key (\<lambda>(c, k). - int k) counts)"

text \<open>
  \<open>print_summary\<close>. What it prints is a list of lines, each holding the values its
  format string shows; \<open>a / b\<close> raises \<open>ZeroDivisionError\<close> when \<open>b\<close> is 0, and the lines
  printed before stay printed.
\<close>

definition truediv :: "int \<Rightarrow> int \<Rightarrow> py_error + rat" where
  "truediv a b = (if b = 0 then Inl ZeroDivisionError else Inr (of_int a / of_int b))"

datatype printed =
  Text string
  | Total_tasks int
  | First_pass_success int int rat
  | Final_success int int rat
  | Average_attempts rat
  | Average_cost rat
  | Average_time rat
  | Error_count json nat

definition print_summary :: "generation_metrics list \<Rightarrow> printed list \<times> py_error option" where
  "print_summary results =
     (let total_tasks = int (length results);
          first_pass = int (length (filter first_pass_success results));
          final = int (length (filter final_success results));
          avg_attempts = (if total_tasks > 0
                          then of_int (sum_list (map total_attempts results)) / of_int total_tasks
                          else 0);
          avg_cost = (if total_tasks > 0
                      then sum_list (map total_cost_usd results) / of_int total_tasks else 0);
          avg_time = (if total_tasks > 0
                      then sum_list (map total_duration_ms results) / of_int total_tasks else 0);
          head = [Text (CHR 0x0A # replicate 80 (CHR ''='')), Text ''SUMMARY'',
                  Text (replicate 80 (CHR ''='')), Total_tasks total_tasks]
      in case truediv first_pass total_tasks of
           Inl e \<Rightarrow> (head, Some e)
         | Inr first_rate \<Rightarrow>
             (case truediv final total_tasks of
                Inl e \<Rightarrow>
                  (head @ [First_pass_success first_pass total_tasks (first_rate * 100)], Some e)
              | Inr final_rate \<Rightarrow>
                  (let all_errors = concat (map error_codes results);
                       body = head @ [First_pass_success first_pass total_tasks (first_rate * 100),
                                      Final_success final total_tasks (final_rate * 100),
                                      Average_attempts avg_attempts,
                                      Average_cost avg_cost,
                                      Average_time avg_time,
                                      Text []]
                   in if all_errors = [] then (body, None)
                      else (case Counter all_errors [] of
                              Inl e \<Rightarrow> (body @ [Text ''Most common errors:''], Some e)
                            | Inr counts \<Rightarrow>
                                (body @ Text ''Most common errors:''
                                        # map (\<lambda>(c, k). Error_count c k) (most_common 10 counts),
                                 None)))))"

section \<open>Properties of the example selector\<close>

lemma select_loop_full:
  "max_examples \<le> int (length selected) \<Longrightarrow>
   select_loop max_tokens max_examples cs selected tot = selected"
  by (cases cs) auto

lemma select_loop_tokens:
  "tot = sum_list (map approx_tokens selected) \<Longrightarrow> tot \<le> max_tokens \<Longrightarrow>
   sum_list (map approx_tokens (select_loop max_tokens max_examples cs selected tot)) \<le> max_tokens"
  by (induction max_tokens max_examples cs selected tot rule: select_loop.induct) auto

lemma select_loop_length:
  "int (length selected) \<le> max_examples \<Longrightarrow>
   int (length (select_loop max_tokens max_examples cs selected tot)) \<le> max_examples"
  by (induction max_tokens max_examples cs selected tot rule: select_loop.induct) auto

lemma select_loop_subseq:
  "\<exists>ys. select_loop max_tokens max_examples cs selected tot = selected @ ys
        \<and> subseq ys (map snd cs)"
proof (induction max_tokens max_examples cs selected tot rule: select_loop.induct)
  case (1 max_tokens max_examples selected total_tokens)
  then show ?case by simp
next
  case (2 max_tokens max_examples score ex rest selected total_tokens)
  show ?case
  proof (cases "int (length selected) \<ge> max_examples")
    case True
    then show ?thesis by simp
  next
    case full: False
    show ?thesis
    proof (cases "total_tokens + approx_tokens ex \<le> max_tokens")
      case True
      with full 2(1) obtain ys where
        "select_loop max_tokens max_examples rest (selected @ [ex])
           (total_tokens + approx_tokens ex) = (selected @ [ex]) @ ys"
        "subseq ys (map snd rest)" by auto
      with full True show ?thesis by auto
    next
      case False
      with full 2(2) obtain ys where
        "select_loop max_tokens max_examples rest selected total_tokens = selected @ ys"
        "subseq ys (map snd rest)" by auto
      with full False show ?thesis by auto
    qed
  qed
qed

lemma select_loop_append:
  "tot = sum_list (map approx_tokens selected) \<Longrightarrow>
   select_loop max_tokens max_examples (xs @ ys) selected tot =
     select_loop max_tokens max_examples ys
       (select_loop max_tokens max_examples xs selected tot)
       (sum_list (map approx_tokens (select_loop max_tokens max_examples xs selected tot)))"
proof (induction max_tokens max_examples xs selected tot rule: select_loop.induct)
  case (1 max_tokens max_examples selected total_tokens)
  then show ?case by simp
next
  case (2 max_tokens max_examples score ex rest selected total_tokens)
  then show ?case by (auto simp: select_loop_full)
qed

lemma sorted_sort_scored: "sorted_wrt (\<lambda>a b. fst a \<ge> fst b) (sort_scored xs)"
proof -
  have "sorted (map (\<lambda>(score, ex). - score) (sort_scored xs))"
    unfolding sort_scored_def by (rule sorted_sort_key)
  then show ?thesis
    by (simp add: sorted_map sorted_wrt_iff_nth_less case_prod_unfold)
qed

lemma stable_sort_scored:
  "filter (\<lambda>c. fst c = k) (sort_scored xs) = filter (\<lambda>c. fst c = k) xs"
proof -
  have "filter (\<lambda>c. (\<lambda>(score, ex). - score) c = - k) (sort_scored xs)
        = filter (\<lambda>c. (\<lambda>(score, ex). - score) c = - k) xs"
    unfolding sort_scored_def by (rule sort_key_stable)
  then show ?thesis by (simp add: case_prod_unfold)
qed


text \<open>
  Claim C5, amended. For every catalog, task category and pair of limits: when
  \<open>max_tokens\<close> is not negative the \<open>approx_tokens\<close> of the selected examples sum to
  at most \<open>max_tokens\<close>, and when \<open>max_examples\<close> is not negative at most
  \<open>max_examples\<close> examples are selected. The candidates are ranked by score, highest
  first, equal scores keeping their catalog order; the selection is a subsequence of that
  ranking; and at every candidate of the ranking the loop stops if the count limit is
  reached, takes the candidate if it fits the remaining token budget, and otherwise
  skips it and goes on with the lower-ranked candidates.
\<close>

theorem select_budget_and_greedy_order:
  "(0 \<le> max_tokens \<longrightarrow>
      sum_list (map approx_tokens (select examples task max_tokens max_examples)) \<le> max_tokens)
   \<and> (0 \<le> max_examples \<longrightarrow>
      int (length (select examples task max_tokens max_examples)) \<le> max_examples)
   \<and> sorted_wrt (\<lambda>a b. fst a \<ge> fst b) (sort_scored (scored examples task))
   \<and> (\<forall>k. filter (\<lambda>c. fst c = k) (sort_scored (scored examples task))
          = filter (\<lambda>c. fst c = k) (scored examples task))
   \<and> subseq (select examples task max_tokens max_examples)
         (map snd (sort_scored (scored examples task)))
   \<and> (\<forall>pre score ex post.
         sort_scored (scored examples task) = pre @ (score, ex) # post \<longrightarrow>
         (let sel = select_loop max_tokens max_examples pre [] 0;
              used = sum_list (map approx_tokens sel)
          in select examples task max_tokens max_examples =
               (if max_examples \<le> int (length sel) then sel
                else if used + approx_tokens ex \<le> max_tokens
                  then select_loop max_tokens max_examples post (sel @ [ex])
                         (used + approx_tokens ex)
                  else select_loop max_tokens max_examples post sel used)))"
proof -
  let ?ranked = "sort_scored (scored examples task)"
  have tokens: "0 \<le> max_tokens \<Longrightarrow>
      sum_list (map approx_tokens (select examples task max_tokens max_examples)) \<le> max_tokens"
    unfolding select_def by (rule select_loop_tokens) simp_all
  have count: "0 \<le> max_examples \<Longrightarrow>
      int (length (select examples task max_tokens max_examples)) \<le> max_examples"
    unfolding select_def by (rule select_loop_length) simp
  have order: "subseq (select examples task max_tokens max_examples) (map snd ?ranked)"
    using select_loop_subseq [of max_tokens max_examples ?ranked "[]" 0]
    by (auto simp: select_def)
  have step: "select examples task max_tokens max_examples =
               (if max_examples \<le> int (length sel) then sel
                else if used + approx_tokens ex \<le> max_tokens
                  then select_loop max_tokens max_examples post (sel @ [ex])
                         (used + approx_tokens ex)
                  else select_loop max_tokens max_examples post sel used)"
    if split: "?ranked = pre @ (score, ex) # post"
      and sel: "sel = select_loop max_tokens max_examples pre [] 0"
      and used: "used = sum_list (map approx_tokens sel)"
    for pre score ex post sel used
  proof -
    have "select examples task max_tokens max_examples =
            select_loop max_tokens max_examples ((score, ex) # post) sel used"
      unfolding select_def split sel used by (rule select_loop_append) simp
    then show ?thesis by simp
  qed
  show ?thesis
    using tokens count order sorted_sort_scored [of "scored examples task"]
      stable_sort_scored [of _ "scored examples task"] step
    by (simp add: Let_def)
qed

text \<open>
  The CRUD task with the default limits: the second-ranked example (450 tokens) does not
  fit after the first (1200 tokens) and is skipped, as are the next six, and the
  ninth-ranked (80 tokens) is taken.
\<close>

theorem select_budget_and_greedy_order_witness:
  "(0::int) \<le> 1500 \<and> (0::int) \<le> 3
   \<and> sum_list (map approx_tokens (select EXAMPLES CRUD_OPERATION 1500 3)) \<le> 1500
   \<and> int (length (select EXAMPLES CRUD_OPERATION 1500 3)) \<le> 3
   \<and> map title (select EXAMPLES CRUD_OPERATION 1500 3)
       = [''Database Dialects (SQL Body Blocks)'', ''Hello World (Minimal Effectful Function)'']"
proof -
  have "map title (select EXAMPLES CRUD_OPERATION 1500 3)
       = [''Database Dialects (SQL Body Blocks)'', ''Hello World (Minimal Effectful Function)'']"
    by code_simp
  then show ?thesis
    using select_budget_and_greedy_order [of 1500 EXAMPLES CRUD_OPERATION 3] by simp
qed

text \<open>
  Claim C5 as stated fails for a negative limit: the selection is then empty, and its
  token sum and length, both 0, exceed the limit.
\<close>

theorem select_negative_budget_counterexample:
  "\<not> sum_list (map approx_tokens (select EXAMPLES PURE_FUNCTION (- 1) 3)) \<le> - 1
   \<and> \<not> int (length (select EXAMPLES PURE_FUNCTION 1500 (- 1))) \<le> - 1"
  by code_simp

section \<open>Properties of the compiler validator\<close>

lemmas string_defs = strip_def lstrip_def rstrip_def py_isspace_def startswith_def
  is_digit_def is_upper_AZ_def int_of_digits_def py_int_def lower_def lower_char_def

text \<open>
  Claim C3 at the input of its scenario: empty stdout and stderr, exit code 1. The
  combined output is the newline that joins the two streams, so it is never empty: the
  one synthesized \<open>E-UNKNOWN\<close> error carries that newline as its message, and the
  fallback \<open>Compilation failed\<close> is not used.
\<close>

theorem parse_empty_output_exit1:
  "parse_compiler_output loads \<lparr>returncode = 1, stdout = [], stderr = []\<rparr> =
     Inr ([\<lparr>code = JStr ''E-UNKNOWN'', severity = ERROR, message = JStr [CHR 0x0A],
            location = JNull, line = JNull, column = JNull, suggestion = JNull,
            auto_fix_confidence = JNull\<rparr>], [])"
  by (simp add: parse_compiler_output_def string_defs)

text \<open>
  Claim C6 at a failing input: stdout \<open>[1]\<close>, which \<open>json.loads\<close> decodes to the list
  \<open>[1]\<close>. The item \<open>1\<close> has no \<open>get\<close>; the \<open>AttributeError\<close> is not a
  \<open>JSONDecodeError\<close>, so it leaves \<open>_parse_compiler_output\<close>.
\<close>

theorem parse_non_dict_item_raises:
  "parse_compiler_output (\<lambda>s. if s = [CHR 0x0A] @ ''[1]'' then Some (JArr [JInt 1]) else None)
     \<lparr>returncode = 1, stdout = ''[1]'', stderr = []\<rparr> = Inl AttributeError"
  by (simp add: parse_compiler_output_def string_defs parse_json_output_def iter_items_def)


text \<open>
  What does hold around claims C3 and C6: a payload that fails to decode is handed to
  the line parser, whose result or exception is that of the whole parse; an unknown
  severity raises \<open>ValueError\<close>; a decoded payload returns before the generic error is
  added; and on the text path the generic error carries the whole combined output.
\<close>

lemma decode_failure_falls_through:
  assumes "loads (stderr r @ [CHR 0x0A] @ stdout r) = None"
    and "parse_text_lines (split_on (CHR 0x0A) (stderr r @ [CHR 0x0A] @ stdout r)) [] []
           = Inr (errs, warns)"
  shows "\<exists>errs'. parse_compiler_output loads r = Inr (errs', warns)"
  using assms by (simp add: parse_compiler_output_def Let_def)

lemma text_line_exception_propagates:
  assumes "loads (stderr r @ [CHR 0x0A] @ stdout r) = None"
    and "parse_text_lines (split_on (CHR 0x0A) (stderr r @ [CHR 0x0A] @ stdout r)) [] []
           = Inl e"
  shows "parse_compiler_output loads r = Inl e"
  using assms by (simp add: parse_compiler_output_def Let_def)

lemma unknown_severity_raises:
  "parse_json_output (JObj [(''severity'', JStr ''note'')]) = Inl ValueError"
  by (simp add: parse_json_output_def iter_items_def ErrorSeverity_def dict_get_def)

lemma structured_path_skips_generic_error:
  "parse_compiler_output (\<lambda>s. Some (JArr [])) \<lparr>returncode = 1, stdout = ''[]'', stderr = []\<rparr>
     = Inr ([], [])"
  by (simp add: parse_compiler_output_def string_defs parse_json_output_def iter_items_def)

lemma text_path_generic_error:
  assumes "parse_text_lines (split_on (CHR 0x0A) (stderr r @ [CHR 0x0A] @ stdout r)) [] []
             = Inr ([], warns)"
    and "returncode r \<noteq> 0"
    and "loads (stderr r @ [CHR 0x0A] @ stdout r) = None"
  shows "parse_compiler_output loads r =
     Inr ([\<lparr>code = JStr ''E-UNKNOWN'', severity = ERROR,
            message = JStr (stderr r @ [CHR 0x0A] @ stdout r),
            location = JNull, line = JNull, column = JNull, suggestion = JNull,
            auto_fix_confidence = JNull\<rparr>], warns)"
  using assms by (simp add: parse_compiler_output_def Let_def)

text \<open>
  \<open>_parse_error_line\<close> raises exactly when the number after the leftmost \<open>line \<close> has
  more than 4300 digits, and then it raises \<open>ValueError\<close>.
\<close>

lemma parse_error_line_raises:
  "(case re_search match_line t of Some ds \<Rightarrow> length ds > 4300 | None \<Rightarrow> False) \<Longrightarrow>
   parse_error_line t sev = Inl ValueError"
  by (auto simp: parse_error_line_def py_int_def Let_def split: option.splits)



text \<open>
  A line that starts with \<open>ERROR\<close> and carries a line number of 4301 digits: \<open>int\<close>
  refuses it, and the exception leaves the parser.
\<close>

lemma strip_unchanged:
  assumes "s \<noteq> []" and "\<not> py_isspace (hd s)" and "\<not> py_isspace (last s)"
  shows "strip s = s"
proof -
  have "lstrip s = s"
    using assms(2) by (simp add: lstrip_def dropWhile_eq_self_iff)
  moreover have "dropWhile py_isspace (rev s) = rev s"
    using assms(1,3) by (simp add: dropWhile_eq_self_iff hd_rev)
  ultimately show ?thesis by (simp add: strip_def rstrip_def)
qed

lemma long_line_number:
  "strip (''ERROR line '' @ replicate 4301 (CHR ''1'')) = ''ERROR line '' @ replicate 4301 (CHR ''1'')"
  "re_search match_line (''ERROR line '' @ replicate 4301 (CHR ''1'')) = Some (replicate 4301 (CHR ''1''))"
proof -
  show "strip (''ERROR line '' @ replicate 4301 (CHR ''1'')) = ''ERROR line '' @ replicate 4301 (CHR ''1'')"
    by (rule strip_unchanged) (simp_all add: py_isspace_def)
  show "re_search match_line (''ERROR line '' @ replicate 4301 (CHR ''1'')) = Some (replicate 4301 (CHR ''1''))"
    by (simp add: match_line_def startswith_def is_digit_def)
qed

lemma parse_error_line_long_number:
  "parse_error_line (''ERROR line '' @ replicate 4301 (CHR ''1'')) ERROR = Inl ValueError"
proof (rule parse_error_line_raises)
  show "case re_search match_line (''ERROR line '' @ replicate 4301 (CHR ''1'')) of
          Some ds \<Rightarrow> length ds > 4300 | None \<Rightarrow> False"
    unfolding long_line_number(2) by simp
qed



text \<open>The line of scenario 1, parsed, on either stream.\<close>

lemma parse_error_line_scenario:
  "parse_error_line ''ERROR [E-PARSE-001] at line 10: Unexpected token'' ERROR =
     Inr \<lparr>code = JStr ''E-PARSE-001'', severity = ERROR,
      message = JStr ''at line 10: Unexpected token'', location = JNull,
      line = JInt 10, column = JNull, suggestion = JNull, auto_fix_confidence = JNull\<rparr>"
  by (simp add: parse_error_line_def match_code_def match_line_def string_defs)

lemma parse_scenario_stderr:
  "parse_compiler_output loads
     \<lparr>returncode = 1, stdout = [],
      stderr = ''ERROR [E-PARSE-001] at line 10: Unexpected token''\<rparr> =
   Inr ([\<lparr>code = JStr ''E-PARSE-001'', severity = ERROR,
      message = JStr ''at line 10: Unexpected token'', location = JNull,
      line = JInt 10, column = JNull, suggestion = JNull, auto_fix_confidence = JNull\<rparr>], [])"
  by (simp add: parse_compiler_output_def parse_error_line_scenario strip_def lstrip_def
        rstrip_def py_isspace_def startswith_def)

lemma parse_scenario_stdout:
  "parse_compiler_output loads
     \<lparr>returncode = 1, stdout = ''ERROR [E-PARSE-001] at line 10: Unexpected token'',
      stderr = []\<rparr> =
   Inr ([\<lparr>code = JStr ''E-PARSE-001'', severity = ERROR,
      message = JStr ''at line 10: Unexpected token'', location = JNull,
      line = JInt 10, column = JNull, suggestion = JNull, auto_fix_confidence = JNull\<rparr>], [])"
  by (simp add: parse_compiler_output_def parse_error_line_scenario strip_def lstrip_def
        rstrip_def py_isspace_def startswith_def)

text \<open>
  Claim C4, amended. When the compiler exits with code 1 and its only output, on stderr
  or on stdout, is \<open>ERROR [E-PARSE-001] at line 10: Unexpected token\<close>, validation
  returns exactly one error diagnostic with code \<open>E-PARSE-001\<close>, line 10 and message
  \<open>at line 10: Unexpected token\<close> (everything after the code bracket), no warning, the
  phase \<open>parser\<close> and success false.
\<close>

theorem parse_error_scenario:
  assumes rc: "returncode r = 1"
    and out: "stderr r = ''ERROR [E-PARSE-001] at line 10: Unexpected token'' \<and> stdout r = []
            \<or> stderr r = [] \<and> stdout r = ''ERROR [E-PARSE-001] at line 10: Unexpected token''"
    and run: "subprocess_run env source x = (Completed r, x')"
  shows "validate env source x =
     (Inr \<lparr>success = False,
           errors = [\<lparr>code = JStr ''E-PARSE-001'', severity = ERROR,
                      message = JStr ''at line 10: Unexpected token'', location = JNull,
                      line = JInt 10, column = JNull, suggestion = JNull,
                      auto_fix_confidence = JNull\<rparr>],
           warnings = [],
           source_code = source,
           compilation_time_ms = Some ((time_time env x' - time_time env x) * 1000),
           phase_reached = Some ''parser''\<rparr>, x')"
proof -
  let ?text = "''ERROR [E-PARSE-001] at line 10: Unexpected token''"
  let ?d = "\<lparr>code = JStr ''E-PARSE-001'', severity = ERROR,
      message = JStr ''at line 10: Unexpected token'', location = JNull,
      line = JInt 10, column = JNull, suggestion = JNull, auto_fix_confidence = JNull\<rparr>"
  have r: "r = \<lparr>returncode = 1, stdout = [], stderr = ?text\<rparr>
         \<or> r = \<lparr>returncode = 1, stdout = ?text, stderr = []\<rparr>"
    using rc out by (cases r) auto
  then have parse: "parse_compiler_output (json_loads env) r = Inr ([?d], [])"
    using parse_scenario_stderr parse_scenario_stdout by auto
  have phase: "determine_phase r [?d] = Inr ''parser''"
    by (simp add: determine_phase_def startswith_def)
  show ?thesis
    using run parse phase by (simp add: validate_def run_compiler_def)
qed

text \<open>A compiler run that prints the line on stderr and takes one second.\<close>

theorem parse_error_scenario_witness:
  "validate \<lparr>subprocess_run = (\<lambda>s x. (Completed \<lparr>returncode = 1, stdout = [],
                 stderr = ''ERROR [E-PARSE-001] at line 10: Unexpected token''\<rparr>, Suc x)),
             json_loads = (\<lambda>s. None), time_time = (\<lambda>x. of_nat x),
             now_isoformat = (\<lambda>x. []), messages_create = (\<lambda>p x. (Inl ValueError, x))\<rparr>
      ''snippet'' 0 =
     (Inr \<lparr>success = False,
           errors = [\<lparr>code = JStr ''E-PARSE-001'', severity = ERROR,
                      message = JStr ''at line 10: Unexpected token'', location = JNull,
                      line = JInt 10, column = JNull, suggestion = JNull,
                      auto_fix_confidence = JNull\<rparr>],
           warnings = [],
           source_code = ''snippet'',
           compilation_time_ms = Some 1000,
           phase_reached = Some ''parser''\<rparr>, Suc 0)"
  using parse_error_scenario
    [of "\<lparr>returncode = 1, stdout = [],
          stderr = ''ERROR [E-PARSE-001] at line 10: Unexpected token''\<rparr>"
        "\<lparr>subprocess_run = (\<lambda>s x. (Completed \<lparr>returncode = 1, stdout = [],
                 stderr = ''ERROR [E-PARSE-001] at line 10: Unexpected token''\<rparr>, Suc x)),
             json_loads = (\<lambda>s. None), time_time = (\<lambda>x. of_nat x),
             now_isoformat = (\<lambda>x. []), messages_create = (\<lambda>p x. (Inl ValueError, x))\<rparr>"
        "''snippet''" 0 "Suc 0"]
  by simp

text \<open>
  Claim C4 as stated fails: the message of the one diagnostic is not
  \<open>Unexpected token\<close>.
\<close>

theorem parse_error_message_counterexample:
  "map message
     (case parse_compiler_output (\<lambda>s. None)
             \<lparr>returncode = 1, stdout = [],
              stderr = ''ERROR [E-PARSE-001] at line 10: Unexpected token''\<rparr> of
        Inl e \<Rightarrow> []
      | Inr (errs, warns) \<Rightarrow> errs)
   \<noteq> [JStr ''Unexpected token'']"
  by (simp add: parse_scenario_stderr)





text \<open>
  Claim C2. For every source text and every behaviour of the outside world, a
  \<open>ValidationResult\<close> returned by \<open>validate\<close> has \<open>success\<close> true iff its errors list
  is empty.
\<close>

theorem validate_success_iff_no_errors:
  "validate env source x = (Inr r, x') \<Longrightarrow> success r = (errors r = [])"
  by (auto simp: validate_def Let_def split: prod.splits sum.splits)

text \<open>A compiler that times out, and one that exits with code 0 and no output.\<close>

theorem validate_success_iff_no_errors_witness:
  "(\<exists>r. validate \<lparr>subprocess_run = (\<lambda>s x. (TimeoutExpired, x)),
             json_loads = (\<lambda>s. None), time_time = (\<lambda>x. 0),
             now_isoformat = (\<lambda>x. []), messages_create = (\<lambda>p x. (Inl ValueError, x))\<rparr>
      ''snippet'' () = (Inr r, ()) \<and> \<not> success r \<and> errors r \<noteq> [])
   \<and> (\<exists>r. validate \<lparr>subprocess_run = (\<lambda>s x. (Completed \<lparr>returncode = 0, stdout = [], stderr = []\<rparr>, x)),
             json_loads = (\<lambda>s. None), time_time = (\<lambda>x. 0),
             now_isoformat = (\<lambda>x. []), messages_create = (\<lambda>p x. (Inl ValueError, x))\<rparr>
      ''snippet'' () = (Inr r, ()) \<and> success r \<and> errors r = [])"
proof -
  let ?env1 = "\<lparr>subprocess_run = (\<lambda>s x. (TimeoutExpired, x)),
             json_loads = (\<lambda>s. None), time_time = (\<lambda>x. 0),
             now_isoformat = (\<lambda>x. []), messages_create = (\<lambda>p x. (Inl ValueError, x))\<rparr>
           :: unit env"
  let ?env2 = "\<lparr>subprocess_run = (\<lambda>s x. (Completed \<lparr>returncode = 0, stdout = [], stderr = []\<rparr>, x)),
             json_loads = (\<lambda>s. None), time_time = (\<lambda>x. 0),
             now_isoformat = (\<lambda>x. []), messages_create = (\<lambda>p x. (Inl ValueError, x))\<rparr>
           :: unit env"
  obtain r1 where r1: "validate ?env1 ''snippet'' () = (Inr r1, ())" "errors r1 \<noteq> []"
    by (simp add: validate_def run_compiler_def parse_compiler_output_def determine_phase_def
        parse_error_line_def py_int_def match_code_def match_line_def strip_def lstrip_def rstrip_def
        py_isspace_def startswith_def lower_def lower_char_def)
  obtain r2 where r2: "validate ?env2 ''snippet'' () = (Inr r2, ())" "errors r2 = []"
    by (simp add: validate_def run_compiler_def parse_compiler_output_def determine_phase_def
        strip_def lstrip_def rstrip_def py_isspace_def startswith_def)
  from validate_success_iff_no_errors [OF r1(1)] validate_success_iff_no_errors [OF r2(1)]
  show ?thesis using r1 r2 by auto
qed

section \<open>Properties of the generation harness\<close>

text \<open>An element of a list is its last element or one of those before.\<close>

lemma in_set_butlast_or_last:
  "x \<in> set xs \<Longrightarrow> x \<in> set (butlast xs) \<or> x = last xs"
  by (induction xs) (auto split: if_splits)

text \<open>Every attempt that is returned cost exactly one call of the model.\<close>

lemma call_llm_counts:
  "call_llm h prompt w = (r, w') \<Longrightarrow> llm_calls w' = Suc (llm_calls w)"
  by (auto simp: call_llm_def Let_def split: model_provider.splits prod.splits sum.splits)

lemma call_and_validate_attempt:
  assumes "call_and_validate h prompt number w = (Inr a, w')"
  shows "llm_calls w' = Suc (llm_calls w) \<and> attempt_number a = number
         \<and> validation_result a \<noteq> None"
proof -
  from assms obtain reply w1 where call: "call_llm h prompt w = (Inr reply, w1)"
    by (auto simp: call_and_validate_def Let_def split: prod.splits sum.splits)
  from call_llm_counts [OF call] have "llm_calls w1 = Suc (llm_calls w)" .
  with assms call show ?thesis
    by (auto simp: call_and_validate_def Let_def split: prod.splits sum.splits)
qed

lemma generate_attempt_counts:
  "generate_attempt h task examples number w = (Inr a, w') \<Longrightarrow>
   llm_calls w' = Suc (llm_calls w) \<and> attempt_number a = number"
  using call_and_validate_attempt
  by (fastforce simp: generate_attempt_def split: sum.splits)

lemma generate_correction_counts:
  "generate_correction h task examples number previous errs w = (Inr a, w') \<Longrightarrow>
   llm_calls w' = Suc (llm_calls w) \<and> attempt_number a = number"
  using call_and_validate_attempt
  by (fastforce simp: generate_correction_def split: sum.splits)

text \<open>
  The invariant of the correction loop: the current validation is the last attempt's,
  \<open>final_success\<close> is its success, and every earlier attempt failed.
\<close>

lemma correction_loop_invariant:
  assumes "correction_loop h task examples rounds (atts, cc, cv, fin) w
             = (Inr (atts', cc', cv', fin'), w')"
    and "atts \<noteq> []"
    and "cv = validation_result (last atts)"
    and "fin = succeeded cv"
    and "\<forall>a \<in> set (butlast atts). \<not> succeeded (validation_result a)"
  shows "(\<exists>new. atts' = atts @ new \<and> length new \<le> length rounds
            \<and> llm_calls w' = llm_calls w + length new)
       \<and> cv' = validation_result (last atts')
       \<and> fin' = succeeded cv'
       \<and> (\<forall>a \<in> set (butlast atts'). \<not> succeeded (validation_result a))"
  using assms
proof (induction rounds arbitrary: atts cc cv fin w)
  case Nil
  then show ?case by auto
next
  case (Cons round_num rounds)
  show ?case
  proof (cases "succeeded cv")
    case True
    with Cons.prems have "atts' = atts" "cv' = cv" "fin' = fin" "w' = w"
      by (auto simp: succeeded_def split: option.splits)
    with Cons.prems show ?thesis by simp
  next
    case False
    show ?thesis
    proof (cases cv)
      case None
      with Cons.prems have "atts' = atts" "cv' = cv" "fin' = fin" "w' = w"
        by (auto simp: succeeded_def)
      with Cons.prems show ?thesis by simp
    next
      case (Some v)
      with False have nv: "\<not> success v" by (simp add: succeeded_def)
      from Cons.prems(1) False Some nv Cons.prems(4) obtain a w1 where
        corr: "generate_correction h task examples round_num cc (errors v) w = (Inr a, w1)"
        and rest: "correction_loop h task examples rounds
                     (atts @ [a], generated_code a, validation_result a,
                      succeeded (validation_result a)) w1
                   = (Inr (atts', cc', cv', fin'), w')"
        by (auto split: prod.splits sum.splits)
      have failed: "\<forall>b \<in> set (butlast (atts @ [a])). \<not> succeeded (validation_result b)"
      proof
        fix b assume "b \<in> set (butlast (atts @ [a]))"
        then have "b \<in> set atts" by simp
        then have "b \<in> set (butlast atts) \<or> b = last atts"
          by (rule in_set_butlast_or_last)
        then show "\<not> succeeded (validation_result b)"
          using Cons.prems(3,5) False by auto
      qed
      from Cons.IH [OF rest _ _ _ failed]
      have ih: "(\<exists>new. atts' = (atts @ [a]) @ new \<and> length new \<le> length rounds
                   \<and> llm_calls w' = llm_calls w1 + length new)
          \<and> cv' = validation_result (last atts')
          \<and> fin' = succeeded cv'
          \<and> (\<forall>a \<in> set (butlast atts'). \<not> succeeded (validation_result a))"
        by simp
      then obtain new where new: "atts' = (atts @ [a]) @ new" "length new \<le> length rounds"
        "llm_calls w' = llm_calls w1 + length new" by blast
      from generate_correction_counts [OF corr] have "llm_calls w1 = Suc (llm_calls w)" by simp
      with new have "atts' = atts @ (a # new) \<and> length (a # new) \<le> length (round_num # rounds)
            \<and> llm_calls w' = llm_calls w + length (a # new)" by simp
      then have "\<exists>new. atts' = atts @ new \<and> length new \<le> length (round_num # rounds)
            \<and> llm_calls w' = llm_calls w + length new" by blast
      with ih show ?thesis by blast
    qed
  qed
qed


text \<open>
  Claim C1. For every task and every \<open>max_correction_rounds\<close> \<open>R \<ge> 0\<close>, the metrics that
  \<open>generate\<close> returns satisfy: \<open>total_attempts\<close> is the length of the attempts list and
  is at most \<open>1 + R\<close>; the model was called once per attempt in the list, and every
  attempt but the last failed validation, so no call follows a successful attempt;
  \<open>first_pass_success\<close> is the success of attempt number 1; and \<open>final_success\<close> is the
  success of the last attempt, which holds iff some attempt succeeded.
\<close>

theorem generate_bounded_correction:
  assumes rounds: "0 \<le> max_correction_rounds h"
    and run: "generate h task w = (Inr m, w')"
  shows "total_attempts m = int (length (attempts m))
       \<and> total_attempts m \<le> 1 + max_correction_rounds h
       \<and> attempts m \<noteq> []
       \<and> llm_calls w' = llm_calls w + length (attempts m)
       \<and> (\<forall>a \<in> set (butlast (attempts m)). \<not> succeeded (validation_result a))
       \<and> attempt_number (hd (attempts m)) = 1
       \<and> first_pass_success m = succeeded (validation_result (hd (attempts m)))
       \<and> final_success m = succeeded (validation_result (last (attempts m)))
       \<and> final_success m = (\<exists>a \<in> set (attempts m). succeeded (validation_result a))"
proof -
  let ?examples = "load_examples h (select EXAMPLES (task_type task) 1500 3) (outside w)"
  from run obtain attempt1 w1 where
    first: "generate_attempt h task ?examples 1 w = (Inr attempt1, w1)"
    by (auto simp: generate_def Let_def split: prod.splits sum.splits)
  from run first obtain atts cc cv fin where
    loop: "correction_loop h task ?examples [2..max_correction_rounds h + 1]
             ([attempt1], generated_code attempt1, validation_result attempt1,
              succeeded (validation_result attempt1)) w1
           = (Inr (atts, cc, cv, fin), w')"
    and m: "attempts m = atts" "total_attempts m = int (length atts)"
      "first_pass_success m = succeeded (validation_result attempt1)"
      "final_success m = fin"
    by (auto simp: generate_def Let_def split: prod.splits sum.splits)
  from generate_attempt_counts [OF first]
  have c1: "llm_calls w1 = Suc (llm_calls w)" and n1: "attempt_number attempt1 = 1"
    by simp_all
  have inv: "(\<exists>new. atts = [attempt1] @ new
            \<and> length new \<le> length [2..max_correction_rounds h + 1]
            \<and> llm_calls w' = llm_calls w1 + length new)
       \<and> cv = validation_result (last atts)
       \<and> fin = succeeded cv
       \<and> (\<forall>a \<in> set (butlast atts). \<not> succeeded (validation_result a))"
    by (rule correction_loop_invariant [OF loop]) simp_all
  then obtain new where new: "atts = attempt1 # new"
      "length new \<le> length [2..max_correction_rounds h + 1]"
      "llm_calls w' = llm_calls w1 + length new"
    by auto
  from inv have fin: "fin = succeeded (validation_result (last atts))"
    and failed: "\<forall>a \<in> set (butlast atts). \<not> succeeded (validation_result a)"
    by simp_all
  have "length [2..max_correction_rounds h + 1] = nat (max_correction_rounds h)"
    by simp
  with new(1,2) rounds have bound: "int (length atts) \<le> 1 + max_correction_rounds h"
    by simp
  have nonempty: "atts \<noteq> []" and first_is: "hd atts = attempt1"
    using new(1) by simp_all
  have calls: "llm_calls w' = llm_calls w + length atts"
    using new(1,3) c1 by simp
  have any: "fin = (\<exists>a \<in> set atts. succeeded (validation_result a))"
  proof
    assume fin
    with fin have "succeeded (validation_result (last atts))" by simp
    moreover have "last atts \<in> set atts" using nonempty by simp
    ultimately show "\<exists>a \<in> set atts. succeeded (validation_result a)" by blast
  next
    assume "\<exists>a \<in> set atts. succeeded (validation_result a)"
    then obtain a where a: "a \<in> set atts" "succeeded (validation_result a)" by blast
    from in_set_butlast_or_last [OF a(1)] failed a(2) have "a = last atts" by blast
    with a(2) fin show fin by simp
  qed
  have "total_attempts m = int (length (attempts m))" using m(1,2) by simp
  moreover have "total_attempts m \<le> 1 + max_correction_rounds h" using m(2) bound by simp
  moreover have "attempts m \<noteq> []" using m(1) nonempty by simp
  moreover have "llm_calls w' = llm_calls w + length (attempts m)" using m(1) calls by simp
  moreover have "\<forall>a \<in> set (butlast (attempts m)). \<not> succeeded (validation_result a)"
    using m(1) failed by simp
  moreover have "attempt_number (hd (attempts m)) = 1" using m(1) first_is n1 by simp
  moreover have "first_pass_success m = succeeded (validation_result (hd (attempts m)))"
    using m(1,3) first_is by simp
  moreover have "final_success m = succeeded (validation_result (last (attempts m)))"
    using m(1,4) fin by simp
  moreover have "final_success m = (\<exists>a \<in> set (attempts m). succeeded (validation_result a))"
    using m(1,4) any by simp
  ultimately show ?thesis by blast
qed

text \<open>
  The mock provider with a compiler that fails the first run and accepts the second:
  two attempts, two calls, first pass failed, final success.
\<close>

theorem generate_bounded_correction_witness:
  "\<not> isl (fst (generate
       \<lparr>model_provider = MOCK, max_correction_rounds = 2,
        environment = \<lparr>subprocess_run = (\<lambda>s x. (Completed \<lparr>returncode = (if x = 0 then 1 else 0),
                                                   stdout = [], stderr = []\<rparr>, Suc x)),
                       json_loads = (\<lambda>s. None), time_time = (\<lambda>x. of_nat x),
                       now_isoformat = (\<lambda>x. []),
                       messages_create = (\<lambda>p x. (Inl (ProviderError []), x))\<rparr>,
        load_examples = (\<lambda>es x. []),
        build_initial_prompt = (\<lambda>t e. Inr []),
        build_correction_prompt = (\<lambda>t c es. Inr [])\<rparr>
       \<lparr>id' = [], task_type = PURE_FUNCTION, description = [], module = [],
        function_name = [], parameters = [], return_type = [], requirements = [],
        expected_effects = [], context' = None\<rparr>
       \<lparr>llm_calls = 0, outside = (0::nat)\<rparr>))
   \<and> (let (r, w') = generate
       \<lparr>model_provider = MOCK, max_correction_rounds = 2,
        environment = \<lparr>subprocess_run = (\<lambda>s x. (Completed \<lparr>returncode = (if x = 0 then 1 else 0),
                                                   stdout = [], stderr = []\<rparr>, Suc x)),
                       json_loads = (\<lambda>s. None), time_time = (\<lambda>x. of_nat x),
                       now_isoformat = (\<lambda>x. []),
                       messages_create = (\<lambda>p x. (Inl (ProviderError []), x))\<rparr>,
        load_examples = (\<lambda>es x. []),
        build_initial_prompt = (\<lambda>t e. Inr []),
        build_correction_prompt = (\<lambda>t c es. Inr [])\<rparr>
       \<lparr>id' = [], task_type = PURE_FUNCTION, description = [], module = [],
        function_name = [], parameters = [], return_type = [], requirements = [],
        expected_effects = [], context' = None\<rparr>
       \<lparr>llm_calls = 0, outside = (0::nat)\<rparr>;
         m = projr r
       in total_attempts m = 2 \<and> total_attempts m \<le> 1 + 2 \<and> llm_calls w' = 2
          \<and> \<not> first_pass_success m \<and> final_success m
          \<and> (\<exists>a \<in> set (attempts m). succeeded (validation_result a)))"
proof -
  let ?h = "\<lparr>model_provider = MOCK, max_correction_rounds = 2,
        environment = \<lparr>subprocess_run = (\<lambda>s x. (Completed \<lparr>returncode = (if x = 0 then 1 else 0),
                                                   stdout = [], stderr = []\<rparr>, Suc x)),
                       json_loads = (\<lambda>s. None), time_time = (\<lambda>x. of_nat x),
                       now_isoformat = (\<lambda>x. []),
                       messages_create = (\<lambda>p x. (Inl (ProviderError []), x))\<rparr>,
        load_examples = (\<lambda>es x. []),
        build_initial_prompt = (\<lambda>t e. Inr []),
        build_correction_prompt = (\<lambda>t c es. Inr [])\<rparr> :: nat generation_harness"
  let ?t = "\<lparr>id' = [], task_type = PURE_FUNCTION, description = [], module = [],
        function_name = [], parameters = [], return_type = [], requirements = [],
        expected_effects = [], context' = None\<rparr>"
  let ?w = "\<lparr>llm_calls = 0, outside = (0::nat)\<rparr>"
  have ret: "\<not> isl (fst (generate ?h ?t ?w))" by code_simp
  have two: "total_attempts (projr (fst (generate ?h ?t ?w))) = 2" by code_simp
  have fp: "\<not> first_pass_success (projr (fst (generate ?h ?t ?w)))" by code_simp
  have fs: "final_success (projr (fst (generate ?h ?t ?w)))" by code_simp
  obtain r w' where gen: "generate ?h ?t ?w = (r, w')" by (cases "generate ?h ?t ?w")
  with ret obtain m where r: "r = Inr m" by (cases r) auto
  have g: "generate ?h ?t ?w = (Inr m, w')" using gen r by (simp only:)
  have a: "total_attempts m = 2" using two unfolding g by simp
  have b: "\<not> first_pass_success m" using fp unfolding g by simp
  have c: "final_success m" using fs unfolding g by simp
  have "0 \<le> max_correction_rounds ?h" by simp
  note bounded = generate_bounded_correction [OF this g]
  from bounded have len: "total_attempts m = int (length (attempts m))"
    and calls: "llm_calls w' = llm_calls ?w + length (attempts m)"
    and some: "final_success m = (\<exists>a \<in> set (attempts m). succeeded (validation_result a))"
    by blast+
  from len a have "length (attempts m) = 2" by simp
  with calls have d: "llm_calls w' = 2" by simp
  from some c have e: "\<exists>a \<in> set (attempts m). succeeded (validation_result a)" by blast
  have "let (r, w') = (Inr m :: py_error + generation_metrics, w'); m = projr r
        in total_attempts m = 2 \<and> total_attempts m \<le> 1 + 2 \<and> llm_calls w' = 2
          \<and> \<not> first_pass_success m \<and> final_success m
          \<and> (\<exists>a \<in> set (attempts m). succeeded (validation_result a))"
    using a b c d e by simp
  then show ?thesis using ret unfolding g by blast
qed


lemma startswith_prefix [simp]: "startswith (p @ s) p"
  by (simp add: startswith_def)












text \<open>
  Claim C7 at the empty list: the three averages are guarded, but the first-pass
  percentage divides by the number of tasks; after the header and \<open>Total tasks: 0\<close> the
  function raises \<open>ZeroDivisionError\<close>.
\<close>

theorem print_summary_empty_raises:
  "print_summary [] =
     ([Text (CHR 0x0A # replicate 80 (CHR ''='')), Text ''SUMMARY'',
       Text (replicate 80 (CHR ''='')), Total_tasks 0],
      Some ZeroDivisionError)"
  by (simp add: print_summary_def truediv_def)

text \<open>
  \<open>print_summary\<close> completes exactly on a non-empty list all of whose error codes
  can be hashed.
\<close>

lemma Counter_returns_iff:
  "(\<exists>counts'. Counter cs counts = Inr counts') = (\<forall>c \<in> set cs. hashable c)"
  by (induction cs arbitrary: counts) auto

lemma print_summary_completes_iff:
  "(snd (print_summary results) = None)
   = (results \<noteq> [] \<and> (\<forall>c \<in> set (concat (map error_codes results)). hashable c))"
proof (cases "results = []")
  case True
  then show ?thesis by (simp add: print_summary_def truediv_def)
next
  case False
  let ?all = "concat (map error_codes results)"
  show ?thesis
  proof (cases "Counter ?all []")
    case (Inl e)
    with Counter_returns_iff [of ?all "[]"] have bad: "\<not> (\<forall>c \<in> set ?all. hashable c)"
      by simp
    then obtain c where "c \<in> set ?all" by blast
    then have "?all \<noteq> []" by (metis empty_iff list.set(1))
    with False Inl bad show ?thesis
      by (simp add: print_summary_def truediv_def Let_def)
  next
    case (Inr counts)
    with Counter_returns_iff [of ?all "[]"] have good: "\<forall>c \<in> set ?all. hashable c"
      by blast
    with False Inr show ?thesis
      by (simp add: print_summary_def truediv_def Let_def)
  qed
qed

end
